theory Spec2Isabelle
  imports Complex_Main "HOL-Library.AList"
begin

section \<open>Numbers and tensors of the loss functions (pepnet/losses.py)\<close>

text \<open>
  The loss functions work on float32 tensors. An entry is modelled as a real number or
  one of the three special values of IEEE arithmetic that the code can meet: the
  not-a-number value, which \<open>masked_mse\<close> tests for, and the two infinities.
  An element-wise difference, product or quotient whose exact value lies beyond the
  largest float32 overflows to the infinity of its sign. Within the range the result is
  exact: rounding and the sign of zero are outside this model. The sums of a reduction
  are exact as well, since the framework does not fix the order in which a reduction
  adds.
\<close>

datatype fl = Fin real | PInf | MInf | NaN

text \<open>The largest float32, \<open>(2 - 2^-23) * 2^127\<close>.\<close>

definition FLT_MAX :: real where
  "FLT_MAX = 340282346638528859811704183484516925440"

definition overflow :: "real \<Rightarrow> fl" where
  "overflow r = (if FLT_MAX < r then PInf else if r < - FLT_MAX then MInf else Fin r)"

fun is_nan :: "fl \<Rightarrow> bool" where
  "is_nan NaN = True"
| "is_nan _ = False"

fun is_fin :: "fl \<Rightarrow> bool" where
  "is_fin (Fin _) = True"
| "is_fin _ = False"

fun fneg :: "fl \<Rightarrow> fl" where
  "fneg (Fin a) = Fin (- a)"
| "fneg PInf = MInf"
| "fneg MInf = PInf"
| "fneg NaN = NaN"

fun fadd :: "fl \<Rightarrow> fl \<Rightarrow> fl" where
  "fadd (Fin a) (Fin b) = Fin (a + b)"
| "fadd NaN _ = NaN"
| "fadd _ NaN = NaN"
| "fadd PInf MInf = NaN"
| "fadd MInf PInf = NaN"
| "fadd PInf _ = PInf"
| "fadd _ PInf = PInf"
| "fadd MInf _ = MInf"
| "fadd _ MInf = MInf"

fun fsub :: "fl \<Rightarrow> fl \<Rightarrow> fl" where
  "fsub (Fin a) (Fin b) = overflow (a - b)"
| "fsub x y = fadd x (fneg y)"

text \<open>The sign of a product with an infinity; a zero factor gives NaN.\<close>

fun inf_times :: "bool \<Rightarrow> real \<Rightarrow> fl" where
  "inf_times pos b =
     (if b = 0 then NaN else if (0 < b) = pos then PInf else MInf)"

fun fmul :: "fl \<Rightarrow> fl \<Rightarrow> fl" where
  "fmul (Fin a) (Fin b) = overflow (a * b)"
| "fmul NaN _ = NaN"
| "fmul _ NaN = NaN"
| "fmul PInf (Fin b) = inf_times True b"
| "fmul MInf (Fin b) = inf_times False b"
| "fmul (Fin a) PInf = inf_times True a"
| "fmul (Fin a) MInf = inf_times False a"
| "fmul PInf PInf = PInf"
| "fmul MInf MInf = PInf"
| "fmul PInf MInf = MInf"
| "fmul MInf PInf = MInf"

text \<open>
  Division. A finite non-zero value over zero is an infinity, zero over zero and an
  infinity over an infinity are NaN; no division raises.
\<close>

fun fdiv :: "fl \<Rightarrow> fl \<Rightarrow> fl" where
  "fdiv (Fin a) (Fin b) =
     (if b \<noteq> 0 then overflow (a / b)
      else if a = 0 then NaN else if 0 < a then PInf else MInf)"
| "fdiv NaN _ = NaN"
| "fdiv _ NaN = NaN"
| "fdiv (Fin a) PInf = Fin 0"
| "fdiv (Fin a) MInf = Fin 0"
| "fdiv PInf (Fin b) = (if 0 \<le> b then PInf else MInf)"
| "fdiv MInf (Fin b) = (if 0 \<le> b then MInf else PInf)"
| "fdiv PInf PInf = NaN"
| "fdiv PInf MInf = NaN"
| "fdiv MInf PInf = NaN"
| "fdiv MInf MInf = NaN"

text \<open>Comparisons: every comparison with NaN is false.\<close>

fun fge :: "fl \<Rightarrow> fl \<Rightarrow> bool" where
  "fge (Fin a) (Fin b) = (b \<le> a)"
| "fge NaN _ = False"
| "fge _ NaN = False"
| "fge PInf _ = True"
| "fge _ MInf = True"
| "fge MInf _ = False"
| "fge _ PInf = False"

fun flt :: "fl \<Rightarrow> fl \<Rightarrow> bool" where
  "flt (Fin a) (Fin b) = (a < b)"
| "flt NaN _ = False"
| "flt _ NaN = False"
| "flt PInf _ = False"
| "flt _ MInf = False"
| "flt MInf _ = True"
| "flt _ PInf = True"

text \<open>
  A tensor with a trailing feature axis is a list of samples, each the list of its
  features; a reduction over \<open>axis=-1\<close> gives one value per sample. Element-wise
  operations pair the entries of two tensors of the same shape.
\<close>

type_synonym tensor = "fl list list"
type_synonym mask = "bool list list"

definition same_shape :: "'a list list \<Rightarrow> 'b list list \<Rightarrow> bool" where
  "same_shape a b = list_all2 (\<lambda>r s. length r = length s) a b"

text \<open>Element-wise operations on one sample (a row).\<close>

definition r_sub :: "fl list \<Rightarrow> fl list \<Rightarrow> fl list" where
  "r_sub a b = map2 fsub a b"

definition r_mul :: "fl list \<Rightarrow> fl list \<Rightarrow> fl list" where
  "r_mul a b = map2 fmul a b"

definition r_square :: "fl list \<Rightarrow> fl list" where
  "r_square a = map (\<lambda>x. fmul x x) a"

definition r_ge :: "fl \<Rightarrow> fl list \<Rightarrow> bool list" where
  "r_ge c a = map (\<lambda>x. fge x c) a"

definition r_cast :: "bool list \<Rightarrow> fl list" where
  "r_cast m = map (\<lambda>b. if b then Fin 1 else Fin 0) m"

definition r_zeros_like :: "fl list \<Rightarrow> fl list" where
  "r_zeros_like a = map (\<lambda>_. Fin 0) a"

definition r_switch :: "bool list \<Rightarrow> fl list \<Rightarrow> fl list \<Rightarrow> fl list" where
  "r_switch m a b = map2 (\<lambda>c (x, y). if c then x else y) m (zip a b)"

text \<open>The tensor operations of the code apply them to every sample.\<close>

definition t_sub :: "tensor \<Rightarrow> tensor \<Rightarrow> tensor" where
  "t_sub a b = map2 r_sub a b"

definition t_mul :: "tensor \<Rightarrow> tensor \<Rightarrow> tensor" where
  "t_mul a b = map2 r_mul a b"

definition K_square :: "tensor \<Rightarrow> tensor" where
  "K_square a = map r_square a"

definition t_ge :: "tensor \<Rightarrow> fl \<Rightarrow> mask" where
  "t_ge a c = map (r_ge c) a"

definition t_is_nan :: "tensor \<Rightarrow> mask" where
  "t_is_nan a = map (map is_nan) a"

definition t_not :: "mask \<Rightarrow> mask" where
  "t_not m = map (map Not) m"

definition K_cast :: "mask \<Rightarrow> tensor" where
  "K_cast m = map r_cast m"

definition K_zeros_like :: "tensor \<Rightarrow> tensor" where
  "K_zeros_like a = map r_zeros_like a"

definition K_switch :: "mask \<Rightarrow> tensor \<Rightarrow> tensor \<Rightarrow> tensor" where
  "K_switch m a b = map2 (\<lambda>mr (ar, br). r_switch mr ar br) m (zip a b)"

fun fsum :: "fl list \<Rightarrow> fl" where
  "fsum [] = Fin 0"
| "fsum (x # xs) = fadd x (fsum xs)"

definition K_sum :: "tensor \<Rightarrow> fl list" where
  "K_sum a = map fsum a"

definition K_mean :: "tensor \<Rightarrow> fl list" where
  "K_mean a = map (\<lambda>r. fdiv (fsum r) (Fin (real (length r)))) a"

definition v_div :: "fl list \<Rightarrow> fl list \<Rightarrow> fl list" where
  "v_div a b = map2 fdiv a b"

subsection \<open>The loss functions\<close>

definition positive_only_mse :: "tensor \<Rightarrow> tensor \<Rightarrow> fl list" where
  "positive_only_mse y_true y_pred =
     (let diff = t_sub y_pred y_true;
          squared = K_square diff;
          mask = t_ge y_pred (Fin 0);
          squared = t_mul squared (K_cast mask)
      in K_mean squared)"

definition n_valid_per_sample :: "tensor \<Rightarrow> fl list" where
  "n_valid_per_sample y_true = K_sum (K_cast (t_not (t_is_nan y_true)))"

definition sum_squared_error :: "tensor \<Rightarrow> tensor \<Rightarrow> fl list" where
  "sum_squared_error y_true y_pred =
     (let mask = t_is_nan y_true;
          diff = t_sub y_pred y_true;
          squared = K_square diff
      in K_sum (K_switch mask (K_zeros_like squared) squared))"

definition masked_mse :: "tensor \<Rightarrow> tensor \<Rightarrow> fl list" where
  "masked_mse y_true y_pred =
     v_div (sum_squared_error y_true y_pred) (n_valid_per_sample y_true)"

text \<open>
  The plain mean squared error of the framework, for comparison: the mean over the
  feature axis of the squared difference.
\<close>

definition plain_mse :: "tensor \<Rightarrow> tensor \<Rightarrow> fl list" where
  "plain_mse y_true y_pred = K_mean (K_square (t_sub y_pred y_true))"

text \<open>
  The losses as the specification words them, one sample at a time.
  \<open>spec_positive_only\<close>: the mean over the feature axis of the squared difference, with
  the entries at positions where \<open>y_pred < 0\<close> replaced by zero, dividing by the full
  feature count.
  \<open>spec_masked\<close>: the sum of the squared difference over the positions where \<open>y_true\<close>
  is not NaN, divided by the count of those positions.
\<close>

definition sq_diff :: "fl \<Rightarrow> fl \<Rightarrow> fl" where
  "sq_diff t p = fmul (fsub p t) (fsub p t)"

definition spec_positive_only :: "fl list \<Rightarrow> fl list \<Rightarrow> fl" where
  "spec_positive_only t p =
     fdiv (fsum (map2 (\<lambda>yt yp. if flt yp (Fin 0) then Fin 0 else sq_diff yt yp) t p))
          (Fin (real (length p)))"

definition observed :: "fl list \<Rightarrow> fl list \<Rightarrow> (fl \<times> fl) list" where
  "observed t p = filter (\<lambda>(yt, yp). \<not> is_nan yt) (zip t p)"

definition spec_masked :: "fl list \<Rightarrow> fl list \<Rightarrow> fl" where
  "spec_masked t p =
     fdiv (fsum (map (\<lambda>(yt, yp). sq_diff yt yp) (observed t p)))
          (Fin (real (length (observed t p))))"

section \<open>Python values, dictionaries and errors\<close>

text \<open>
  The values a configuration dictionary can hold, and the two kinds of keys the code
  uses: integer filter widths and the names of the per-layer overrides.
\<close>

datatype pyval = PNone | PBool bool | PInt int | PFloat real | PStr string

datatype key = KInt int | KStr string

text \<open>
  A dictionary keeps its items in insertion order; its keys are distinct.
\<close>

type_synonym dict = "(key \<times> pyval) list"

datatype error = ValueError string | AssertionError | TypeError | AttributeError

text \<open>\<open>d.pop(k, default)\<close>: the value and the dictionary without the key.\<close>

definition dict_pop :: "key \<Rightarrow> pyval \<Rightarrow> dict \<Rightarrow> pyval \<times> dict" where
  "dict_pop k dflt d =
     (case map_of d k of None \<Rightarrow> (dflt, d) | Some v \<Rightarrow> (v, AList.delete k d))"

text \<open>\<open>x > 1\<close>: a bool counts as 0 or 1; None and strings are not ordered with an int.\<close>

fun py_gt_one :: "pyval \<Rightarrow> error + bool" where
  "py_gt_one (PInt n) = Inr (1 < n)"
| "py_gt_one (PFloat r) = Inr (1 < r)"
| "py_gt_one (PBool b) = Inr False"
| "py_gt_one PNone = Inl TypeError"
| "py_gt_one (PStr s) = Inl TypeError"

text \<open>\<open>str(n)\<close> of an integer, as \<open>%d\<close> and a JSON object key render it.\<close>

fun digits :: "nat \<Rightarrow> string" where
  "digits n =
     (if n < 10 then [''0123456789'' ! n]
      else digits (n div 10) @ [''0123456789'' ! (n mod 10)])"

declare digits.simps [simp del]

definition py_str_int :: "int \<Rightarrow> string" where
  "py_str_int i = (if i < 0 then CHR ''-'' # digits (nat (- i)) else digits (nat i))"

text \<open>
  \<open>int(s)\<close> of a string: white space around it is dropped, a sign may come first, then
  decimal digits, which single underscores may separate. Anything else is a ValueError,
  whose message is kept without the quoted literal.
\<close>

definition is_space :: "char \<Rightarrow> bool" where
  "is_space c = (c \<in> set [CHR '' '', CHR 0x09, CHR 0x0A, CHR 0x0B, CHR 0x0C, CHR 0x0D])"

definition is_digit :: "char \<Rightarrow> bool" where
  "is_digit c = (c \<in> set ''0123456789'')"

definition digit_val :: "char \<Rightarrow> nat" where
  "digit_val c = of_char c - 48"

definition strip :: "string \<Rightarrow> string" where
  "strip s = rev (dropWhile is_space (rev (dropWhile is_space s)))"

fun well_grouped :: "string \<Rightarrow> bool" where
  "well_grouped [] = False"
| "well_grouped [c] = is_digit c"
| "well_grouped (c # d # cs) =
     (is_digit c \<and> (if d = CHR ''_'' then well_grouped cs else well_grouped (d # cs)))"

definition digits_val :: "string \<Rightarrow> nat" where
  "digits_val s = foldl (\<lambda>acc c. 10 * acc + digit_val c) 0 (filter is_digit s)"

definition invalid_literal :: error where
  "invalid_literal = ValueError ''invalid literal for int() with base 10''"

definition py_int_of_str :: "string \<Rightarrow> error + int" where
  "py_int_of_str s =
     (let t = strip s;
          (neg, body) =
            (case t of
               c # cs \<Rightarrow> if c = CHR ''-'' then (True, cs)
                          else if c = CHR ''+'' then (False, cs) else (False, t)
             | [] \<Rightarrow> (False, t))
      in if well_grouped body
         then Inr (if neg then - int (digits_val body) else int (digits_val body))
         else Inl invalid_literal)"

text \<open>\<open>int(k)\<close> of a key and \<open>int(v)\<close> of a value.\<close>

fun py_int_key :: "key \<Rightarrow> error + int" where
  "py_int_key (KInt n) = Inr n"
| "py_int_key (KStr s) = py_int_of_str s"

fun py_int :: "pyval \<Rightarrow> error + int" where
  "py_int (PInt n) = Inr n"
| "py_int (PBool b) = Inr (if b then 1 else 0)"
| "py_int (PFloat r) = Inr (if 0 \<le> r then \<lfloor>r\<rfloor> else \<lceil>r\<rceil>)"
| "py_int (PStr s) = py_int_of_str s"
| "py_int PNone = Inl TypeError"

section \<open>The numeric output (pepnet/output.py)\<close>

text \<open>
  The attributes that \<open>Output.__init__\<close> sets itself; the rest are set by the base
  class \<open>Numeric\<close> of another module. \<open>'f\<close> is the type of the value transforms.
\<close>

record 'f output_descriptor =
  activation :: string
  loss :: string
  inverse_transform :: "'f option"
  mask_negative :: bool

text \<open>
  The property \<open>loss_fn\<close>. A loss function takes \<open>y_true\<close> and \<open>y_pred\<close>;
  \<open>deserialize\<close> stands for the loss registry of the framework,
  \<open>keras.losses.deserialize\<close>.
\<close>

type_synonym loss_function = "tensor \<Rightarrow> tensor \<Rightarrow> fl list"

definition loss_fn ::
  "(string \<Rightarrow> error + loss_function) \<Rightarrow> 'f output_descriptor \<Rightarrow> error + loss_function" where
  "loss_fn deserialize self =
     (if mask_negative self then
        if loss self = ''mse'' then Inr positive_only_mse
        else Inl (ValueError (''No masked loss available for '' @ [CHR 0x27] @ loss self @ [CHR 0x27]))
      else deserialize (loss self))"

section \<open>The sequence input (pepnet/sequence_input.py)\<close>

subsection \<open>Configuration values\<close>

text \<open>
  \<open>conv_filter_sizes\<close> is a list of per-layer dictionaries, or one dictionary standing for
  a single layer; an element of the list that is not a dictionary is kept as the value
  it is. \<open>rnn_layer_sizes\<close> is a list of sizes or a single size.
\<close>

datatype layer_spec = LayerDict dict | NotADict pyval

datatype conv_spec = LayerList "layer_spec list" | SingleDict dict

datatype rnn_sizes = SizeList "int list" | SingleSize int

text \<open>
  The graph fragments. The layer constructors of \<open>nn_helpers\<close> belong to the wrapped
  framework: a fragment is the term of the calls that made it, each constructor holding
  the fragment it was applied to first and then the arguments in the order of the call
  in the source.
\<close>

datatype graph =
    IndexSequenceInput "string option" int
  | VectorSequenceInput "string option" int "int option"
  | EmbeddingLayer graph nat int "bool option" real
  | AlignedConvolutions graph "key list" dict pyval pyval pyval "graph option"
  | LocalMaxPooling graph pyval pyval
  | RecurrentLayers graph "int list" string bool bool
  | GlobalMaxAndMeanPooling graph bool real
  | Flatten graph "bool option"
  | DenseLayers graph "int list" string real bool
  | HighwayLayers graph string int real bool
  | ExternalTensor string

text \<open>
  \<open>conv_weight_source\<close> is None, a tensor, or another sequence input; of the latter the
  model keeps what its \<open>build()\<close> gives: an error or the pair of its input and its value.
\<close>

datatype weight_source =
    NoSource
  | TensorSource graph
  | DescriptorSource "error + graph \<times> graph"

text \<open>
  The encoder is made from five flags, in the order of the call. Its class belongs to
  another module (\<open>pepnet/encoder.py\<close>): the number of its tokens is a parameter
  \<open>n_tokens\<close> of the constructor below.
\<close>

datatype encoder = Encoder bool bool bool bool bool

text \<open>The arguments of \<open>SequenceInput.__init__\<close>, and the attributes it sets.\<close>

record sequence_input_args =
  length' :: int
  name :: "string option"
  variable_length :: bool
  mask_zero :: "bool option"
  encoding :: string
  add_start_tokens :: bool
  add_stop_tokens :: bool
  add_normalized_position :: bool
  add_normalized_centrality :: bool
  return_sequences :: bool
  embedding_dim :: int
  embedding_dropout :: real
  conv_filter_sizes :: conv_spec
  repeat_conv_layers :: int
  conv_dropout :: real
  conv_batch_normalization :: bool
  conv_activation :: string
  conv_weight_source :: weight_source
  pool_size :: int
  pool_stride :: int
  rnn_layer_sizes :: rnn_sizes
  rnn_type :: string
  rnn_bidirectional :: bool
  global_pooling :: bool
  global_pooling_batch_normalization :: bool
  global_pooling_dropout :: real
  dense_layer_sizes :: "int list"
  dense_activation :: string
  dense_dropout :: real
  dense_batch_normalization :: bool
  n_highway_layers :: int
  highway_activation :: string
  highway_batch_normalization :: bool
  highway_dropout :: real

record sequence_input = sequence_input_args +
  padded_length :: int
  encoder :: encoder
  n_symbols :: nat
  extra_input_dims :: int
  n_input_dims :: "int option"

text \<open>The defaults of the signature; \<open>length\<close> has none.\<close>

definition default_args :: "int \<Rightarrow> sequence_input_args" where
  "default_args n =
     \<lparr> length' = n, name = None, variable_length = False, mask_zero = None,
       encoding = ''onehot'', add_start_tokens = False, add_stop_tokens = False,
       add_normalized_position = False, add_normalized_centrality = False,
       return_sequences = False, embedding_dim = 32, embedding_dropout = 0,
       conv_filter_sizes = LayerList [], repeat_conv_layers = 1, conv_dropout = 0,
       conv_batch_normalization = False, conv_activation = ''linear'',
       conv_weight_source = NoSource, pool_size = 3, pool_stride = 2,
       rnn_layer_sizes = SizeList [], rnn_type = ''lstm'', rnn_bidirectional = True,
       global_pooling = False, global_pooling_batch_normalization = False,
       global_pooling_dropout = 0, dense_layer_sizes = [], dense_activation = ''relu'',
       dense_dropout = 0.25, dense_batch_normalization = False, n_highway_layers = 0,
       highway_activation = ''tanh'', highway_batch_normalization = False,
       highway_dropout = 0 \<rparr>"

subsection \<open>The constructor\<close>

fun py_is_none :: "pyval \<Rightarrow> bool" where
  "py_is_none PNone = True"
| "py_is_none _ = False"

text \<open>
  The attributes once the checks have passed: the arguments as given, \<open>mask_zero\<close>
  replaced by \<open>variable_length\<close> when it is None, and the derived fields.
\<close>

definition set_attributes ::
  "sequence_input_args \<Rightarrow> int \<Rightarrow> encoder \<Rightarrow> nat \<Rightarrow> int \<Rightarrow> int option \<Rightarrow> sequence_input" where
  "set_attributes a padded enc n_sym extra n_dims =
     sequence_input_args.extend
       (a\<lparr>mask_zero :=
            (case mask_zero a of None \<Rightarrow> Some (variable_length a) | Some b \<Rightarrow> Some b)\<rparr>)
       (sequence_input.fields padded enc n_sym extra n_dims)"

definition SequenceInput_init ::
  "(encoder \<Rightarrow> nat) \<Rightarrow> sequence_input_args \<Rightarrow> error + sequence_input" where
  "SequenceInput_init n_tokens a =
     (if encoding a \<notin> set [''embedding'', ''onehot'', ''blosum'', ''pmbec'']
      then Inl (ValueError (''Invalid encoding: '' @ encoding a))
      else
        let padded = length' a + of_bool (add_start_tokens a) + of_bool (add_stop_tokens a);
            enc = Encoder (variable_length a) (add_start_tokens a) (add_stop_tokens a)
                    (add_normalized_position a) (add_normalized_centrality a);
            n_sym = n_tokens enc;
            extra = of_bool (add_normalized_position a)
                      + of_bool (add_normalized_centrality a)
        in if encoding a = ''embedding'' then
             (if py_is_none (PInt extra)
              then Inr (set_attributes a padded enc n_sym extra None)
              else Inl AssertionError)
           else if encoding a = ''onehot'' then
             Inr (set_attributes a padded enc n_sym extra (Some (int n_sym + extra)))
           else
             Inr (set_attributes a padded enc n_sym extra (Some (20 + extra))))"

subsection \<open>Building the graph fragment\<close>

definition build_input :: "sequence_input \<Rightarrow> graph" where
  "build_input self =
     (if encoding self = ''embedding''
      then IndexSequenceInput (name self) (padded_length self)
      else VectorSequenceInput (name self) (padded_length self) (n_input_dims self))"

definition build_embedding :: "sequence_input \<Rightarrow> graph \<Rightarrow> error + graph" where
  "build_embedding self input_object =
     (if encoding self = ''embedding'' then
        if embedding_dim self \<le> 0
        then Inl (ValueError (''Invalid embedding dim: '' @ py_str_int (embedding_dim self)))
        else Inr (EmbeddingLayer input_object (n_symbols self) (embedding_dim self)
                    (mask_zero self) (embedding_dropout self))
      else Inr input_object)"

text \<open>\<open>(pool_size > 1) or (pool_stride > 1)\<close>: the right side is read only when the left is false.\<close>

definition maxpooling_of :: "pyval \<Rightarrow> pyval \<Rightarrow> error + bool" where
  "maxpooling_of psize pstride =
     (case py_gt_one psize of
        Inl e \<Rightarrow> Inl e
      | Inr True \<Rightarrow> Inr True
      | Inr False \<Rightarrow> py_gt_one pstride)"

definition not_a_dict :: error where
  "not_a_dict = ValueError
     ''Each element of conv_filter_sizes must be a {width: num_filters} dictionary''"

text \<open>
  The body of the inner loop of \<open>_build_conv\<close>, for one element of \<open>conv_filter_sizes\<close>.
  The five \<open>pop\<close> calls change the dictionary of the descriptor itself, so the element
  is returned as the loop leaves it, with the value and the count of layers applied or
  the error raised. The message of the error leaves out the offending value and its type.
\<close>

definition conv_layer ::
  "sequence_input \<Rightarrow> graph option \<Rightarrow> int \<Rightarrow> layer_spec \<Rightarrow> graph \<times> int
     \<Rightarrow> layer_spec \<times> (error + graph \<times> int)" where
  "conv_layer self weight_source n_conv_layers spec acc =
     (case spec of
        NotADict v \<Rightarrow> (spec, Inl not_a_dict)
      | LayerDict d0 \<Rightarrow>
          (let (value, conv_layer_index) = acc;
               (pool_size, d1) = dict_pop (KStr ''pool_size'') (PInt (pool_size self)) d0;
               (pool_stride, d2) = dict_pop (KStr ''pool_stride'') (PInt (pool_stride self)) d1;
               (batch_normalization, d3) =
                  dict_pop (KStr ''batch_normalization'')
                    (PBool (conv_batch_normalization self)) d2;
               (activation, d4) = dict_pop (KStr ''activation'') (PStr (conv_activation self)) d3;
               (dropout, d5) = dict_pop (KStr ''dropout'') (PFloat (conv_dropout self)) d4
           in (case maxpooling_of pool_size pool_stride of
                 Inl e \<Rightarrow> (LayerDict d5, Inl e)
               | Inr maxpooling \<Rightarrow>
                   (if length d5 = 0 then (LayerDict d5, Inr (value, conv_layer_index))
                    else
                      (let value = AlignedConvolutions value (map fst d5) d5 dropout
                                     batch_normalization activation weight_source;
                           conv_layer_index = conv_layer_index + 1
                       in (if maxpooling \<and> conv_layer_index < n_conv_layers
                           then (LayerDict d5,
                                 Inr (LocalMaxPooling value pool_size pool_stride,
                                      conv_layer_index))
                           else (LayerDict d5, Inr (value, conv_layer_index))))))))"

text \<open>The inner loop, over the elements; an error leaves the rest untouched.\<close>

fun conv_layers ::
  "sequence_input \<Rightarrow> graph option \<Rightarrow> int \<Rightarrow> layer_spec list \<Rightarrow> graph \<times> int
     \<Rightarrow> layer_spec list \<times> (error + graph \<times> int)" where
  "conv_layers self ws n [] acc = ([], Inr acc)"
| "conv_layers self ws n (spec # specs) acc =
     (case conv_layer self ws n spec acc of
        (spec', Inl e) \<Rightarrow> (spec' # specs, Inl e)
      | (spec', Inr acc') \<Rightarrow>
          (case conv_layers self ws n specs acc' of
             (specs', r) \<Rightarrow> (spec' # specs', r)))"

text \<open>The outer loop, \<open>for _ in range(repeat_conv_layers)\<close>, on the same dictionaries each time.\<close>

fun conv_repeat ::
  "sequence_input \<Rightarrow> graph option \<Rightarrow> int \<Rightarrow> nat \<Rightarrow> layer_spec list \<Rightarrow> graph \<times> int
     \<Rightarrow> layer_spec list \<times> (error + graph \<times> int)" where
  "conv_repeat self ws n 0 specs acc = (specs, Inr acc)"
| "conv_repeat self ws n (Suc k) specs acc =
     (case conv_layers self ws n specs acc of
        (specs', Inl e) \<Rightarrow> (specs', Inl e)
      | (specs', Inr acc') \<Rightarrow> conv_repeat self ws n k specs' acc')"

fun truthy :: "conv_spec \<Rightarrow> bool" where
  "truthy (LayerList specs) = (specs \<noteq> [])"
| "truthy (SingleDict d) = (d \<noteq> [])"

fun as_layers :: "conv_spec \<Rightarrow> layer_spec list" where
  "as_layers (LayerList specs) = specs"
| "as_layers (SingleDict d) = [LayerDict d]"

text \<open>
  What \<open>self.conv_filter_sizes\<close> holds once the loops have run on its elements: the same
  list, or the same single dictionary, with the dictionaries as the loops left them.
\<close>

fun stored :: "conv_spec \<Rightarrow> layer_spec list \<Rightarrow> conv_spec" where
  "stored (SingleDict d) [LayerDict d'] = SingleDict d'"
| "stored (SingleDict d) _ = SingleDict d"
| "stored (LayerList _) specs = LayerList specs"

fun resolve_weight_source :: "weight_source \<Rightarrow> error + graph option" where
  "resolve_weight_source NoSource = Inr None"
| "resolve_weight_source (TensorSource g) = Inr (Some g)"
| "resolve_weight_source (DescriptorSource (Inl e)) = Inl e"
| "resolve_weight_source (DescriptorSource (Inr (input_object, v))) = Inr (Some v)"

text \<open>
  \<open>_build_conv\<close> returns the descriptor as it leaves it, and the value or the error.
\<close>

definition build_conv :: "sequence_input \<Rightarrow> graph \<Rightarrow> sequence_input \<times> (error + graph)" where
  "build_conv self v =
     (if truthy (conv_filter_sizes self) then
        let specs = as_layers (conv_filter_sizes self) in
        case resolve_weight_source (conv_weight_source self) of
          Inl e \<Rightarrow> (self, Inl e)
        | Inr ws \<Rightarrow>
            let n_conv_layers = repeat_conv_layers self * int (length specs);
                (specs', r) = conv_repeat self ws n_conv_layers
                                (nat (repeat_conv_layers self)) specs (v, 0)
            in (self\<lparr>conv_filter_sizes := stored (conv_filter_sizes self) specs'\<rparr>,
                case r of Inl e \<Rightarrow> Inl e | Inr (v', i) \<Rightarrow> Inr v')
      else (self, Inr v))"

definition build_rnn :: "sequence_input \<Rightarrow> graph \<Rightarrow> graph" where
  "build_rnn self v =
     (let sizes = (case rnn_layer_sizes self of SingleSize n \<Rightarrow> [n] | SizeList ns \<Rightarrow> ns)
      in if length sizes > 0
         then RecurrentLayers v sizes (rnn_type self) (rnn_bidirectional self)
                (return_sequences self)
         else v)"

definition build_global_pooling :: "sequence_input \<Rightarrow> graph \<Rightarrow> graph" where
  "build_global_pooling self v =
     (if global_pooling self
      then GlobalMaxAndMeanPooling v (global_pooling_batch_normalization self)
             (global_pooling_dropout self)
      else v)"

text \<open>\<open>ndim\<close> stands for \<open>K.ndim\<close> of the framework.\<close>

definition build_dense :: "(graph \<Rightarrow> nat) \<Rightarrow> sequence_input \<Rightarrow> graph \<Rightarrow> graph" where
  "build_dense ndim self v =
     (let v = (if ndim v > 2 \<and> \<not> return_sequences self
               then Flatten v (mask_zero self) else v)
      in DenseLayers v (dense_layer_sizes self) (dense_activation self) (dense_dropout self)
           (dense_batch_normalization self))"

definition build_highway :: "(graph \<Rightarrow> nat) \<Rightarrow> sequence_input \<Rightarrow> graph \<Rightarrow> graph" where
  "build_highway ndim self v =
     (let v = (if ndim v > 2 \<and> \<not> return_sequences self
               then Flatten v (mask_zero self) else v)
      in if n_highway_layers self \<noteq> 0
         then HighwayLayers v (highway_activation self) (n_highway_layers self)
                (highway_dropout self) (highway_batch_normalization self)
         else v)"

definition build ::
  "(graph \<Rightarrow> nat) \<Rightarrow> sequence_input \<Rightarrow> sequence_input \<times> (error + graph \<times> graph)" where
  "build ndim self =
     (let input_object = build_input self in
      case build_embedding self input_object of
        Inl e \<Rightarrow> (self, Inl e)
      | Inr v \<Rightarrow>
          (case build_conv self v of
             (self', Inl e) \<Rightarrow> (self', Inl e)
           | (self', Inr v) \<Rightarrow>
               let v = build_rnn self' v;
                   v = build_global_pooling self' v;
                   v = build_dense ndim self' v;
                   v = build_highway ndim self' v
               in (self', Inr (input_object, v))))"

subsection \<open>The configuration mapping and \<open>from_dict\<close>\<close>

text \<open>
  \<open>to_dict\<close> comes from the base class of the serialization package: the configuration
  mapping holds the arguments of the constructor, read back from the attributes of the
  same names.
\<close>

definition to_dict :: "sequence_input \<Rightarrow> sequence_input_args" where
  "to_dict self = sequence_input_args.truncate self"

text \<open>
  A round trip of the mapping through JSON text: the keys of an object are strings, so
  an integer key comes back as its decimal text; of two equal keys the later value stays.
\<close>

fun json_key :: "key \<Rightarrow> key" where
  "json_key (KInt n) = KStr (py_str_int n)"
| "json_key (KStr s) = KStr s"

definition json_dict :: "dict \<Rightarrow> dict" where
  "json_dict d = foldl (\<lambda>acc (k, v). AList.update (json_key k) v acc) [] d"

fun json_layer :: "layer_spec \<Rightarrow> layer_spec" where
  "json_layer (LayerDict d) = LayerDict (json_dict d)"
| "json_layer (NotADict v) = NotADict v"

fun json_conv_spec :: "conv_spec \<Rightarrow> conv_spec" where
  "json_conv_spec (LayerList specs) = LayerList (map json_layer specs)"
| "json_conv_spec (SingleDict d) = SingleDict (json_dict d)"

definition json_roundtrip :: "sequence_input_args \<Rightarrow> sequence_input_args" where
  "json_roundtrip config =
     config\<lparr>conv_filter_sizes := json_conv_spec (conv_filter_sizes config)\<rparr>"

text \<open>
  The dictionary comprehension \<open>{int(k): int(v) for (k, v) in layer_dictionary.items()}\<close>:
  the key is converted before the value, a key met again keeps its place and takes the
  new value.
\<close>

fun int_items :: "dict \<Rightarrow> dict \<Rightarrow> error + dict" where
  "int_items [] acc = Inr acc"
| "int_items ((k, v) # kvs) acc =
     (case py_int_key k of
        Inl e \<Rightarrow> Inl e
      | Inr k' \<Rightarrow>
          (case py_int v of
             Inl e \<Rightarrow> Inl e
           | Inr v' \<Rightarrow> int_items kvs (AList.update (KInt k') (PInt v') acc)))"

text \<open>The loop of \<open>from_dict\<close>; a value that is no dictionary has no \<open>items\<close>.\<close>

fun with_integer_keys :: "layer_spec list \<Rightarrow> error + layer_spec list" where
  "with_integer_keys [] = Inr []"
| "with_integer_keys (NotADict v # specs) = Inl AttributeError"
| "with_integer_keys (LayerDict d # specs) =
     (case int_items d [] of
        Inl e \<Rightarrow> Inl e
      | Inr d' \<Rightarrow>
          (case with_integer_keys specs of
             Inl e \<Rightarrow> Inl e
           | Inr specs' \<Rightarrow> Inr (LayerDict d' # specs')))"

text \<open>
  \<open>from_dict\<close>. Iterating over a single dictionary gives its keys, which have no
  \<open>items\<close> either.
\<close>

definition from_dict ::
  "(encoder \<Rightarrow> nat) \<Rightarrow> sequence_input_args \<Rightarrow> error + sequence_input" where
  "from_dict n_tokens config_dict =
     (case conv_filter_sizes config_dict of
        SingleDict d \<Rightarrow>
          if d = [] then SequenceInput_init n_tokens (config_dict\<lparr>conv_filter_sizes := LayerList []\<rparr>)
          else Inl AttributeError
      | LayerList specs \<Rightarrow>
          (case with_integer_keys specs of
             Inl e \<Rightarrow> Inl e
           | Inr specs' \<Rightarrow>
               SequenceInput_init n_tokens (config_dict\<lparr>conv_filter_sizes := LayerList specs'\<rparr>)))"

section \<open>Auxiliary definitions for the proofs\<close>

text \<open>
  The losses of one sample, as the stages of the code compute them, and the condition
  under which multiplying by the mask removes an entry: where \<open>y_pred < 0\<close>, the
  squared difference that the code computes is finite, neither NaN nor an infinity. So
  \<open>y_true\<close> and \<open>y_pred\<close> are finite there and neither their difference nor its
  square overflows. \<open>in_range\<close> holds of every result of an element-wise operation.
\<close>

definition pom_row :: "fl list \<Rightarrow> fl list \<Rightarrow> fl" where
  "pom_row t p =
     fdiv (fsum (map2 (\<lambda>yt yp. fmul (sq_diff yt yp) (if fge yp (Fin 0) then Fin 1 else Fin 0)) t p))
          (Fin (real (length p)))"

definition mse_row :: "fl list \<Rightarrow> fl list \<Rightarrow> fl" where
  "mse_row t p = fdiv (fsum (r_square (r_sub p t))) (Fin (real (length p)))"

definition sse_row :: "fl list \<Rightarrow> fl list \<Rightarrow> fl" where
  "sse_row t p = fsum (map2 (\<lambda>yt yp. if is_nan yt then Fin 0 else sq_diff yt yp) t p)"

definition n_valid_row :: "fl list \<Rightarrow> fl" where
  "n_valid_row t = fsum (r_cast (map Not (map is_nan t)))"

fun zeroable :: "fl \<Rightarrow> fl \<Rightarrow> bool" where
  "zeroable yt yp = (if flt yp (Fin 0) then is_fin (sq_diff yt yp) else True)"

fun in_range :: "fl \<Rightarrow> bool" where
  "in_range (Fin a) = (\<bar>a\<bar> \<le> FLT_MAX)"
| "in_range _ = True"

section \<open>Properties of the loss functions\<close>

lemmas tensor_eval = same_shape_def positive_only_mse_def masked_mse_def plain_mse_def
  sum_squared_error_def n_valid_per_sample_def t_sub_def t_mul_def K_square_def t_ge_def
  t_is_nan_def t_not_def K_cast_def K_zeros_like_def K_switch_def K_sum_def K_mean_def v_div_def
  r_sub_def r_mul_def r_square_def r_ge_def r_cast_def r_zeros_like_def r_switch_def
  spec_positive_only_def spec_masked_def observed_def sq_diff_def overflow_def FLT_MAX_def
  Let_def

lemma in_range_overflow: "in_range (overflow r)"
  by (auto simp: overflow_def)

lemma overflow_zero: "overflow 0 = Fin 0"
  by (simp add: overflow_def FLT_MAX_def)

lemma in_range_fmul: "in_range (fmul x y)"
  by (cases x; cases y) (simp_all add: in_range_overflow)

lemma fmul_one: "in_range x \<Longrightarrow> fmul x (Fin 1) = x"
  by (cases x) (auto simp: overflow_def)

lemma fmul_zero: "is_fin x \<Longrightarrow> fmul x (Fin 0) = Fin 0"
  by (cases x) (simp_all add: overflow_zero)

lemma sq_diff_NaN: "sq_diff yt NaN = NaN"
  by (cases yt) (simp_all add: sq_diff_def)

lemma negative_cases: "flt yp (Fin 0) \<Longrightarrow> \<not> fge yp (Fin 0)"
  by (cases yp) simp_all

lemma not_negative_cases: "\<not> flt yp (Fin 0) \<Longrightarrow> fge yp (Fin 0) \<or> yp = NaN"
  by (cases yp) auto

lemma fadd_zero: "fadd (Fin 0) x = x"
  by (cases x) simp_all

lemma fsum_zeros: "fsum (map (\<lambda>_. Fin 0) xs) = Fin 0"
  by (induction xs) simp_all

lemma same_shape_nth:
  "same_shape a b \<Longrightarrow> length a = length b \<and> (\<forall>i < length a. length (a ! i) = length (b ! i))"
  by (auto simp: same_shape_def list_all2_conv_all_nth)

lemma map2_cong_rows:
  "list_all2 P xs ys \<Longrightarrow> (\<And>x y. P x y \<Longrightarrow> f x y = g x y) \<Longrightarrow> map2 f xs ys = map2 g xs ys"
  by (induction rule: list_all2_induct) simp_all

subsection \<open>The code, sample by sample\<close>

lemma pom_entries:
  "length t = length p \<Longrightarrow>
   r_mul (r_square (r_sub p t)) (r_cast (r_ge (Fin 0) p))
   = map2 (\<lambda>yt yp. fmul (sq_diff yt yp) (if fge yp (Fin 0) then Fin 1 else Fin 0)) t p"
  unfolding r_mul_def r_square_def r_sub_def r_cast_def r_ge_def
  by (induction t p rule: list_induct2) (simp_all add: sq_diff_def)

lemma positive_only_mse_rows:
  "same_shape y_true y_pred \<Longrightarrow> positive_only_mse y_true y_pred = map2 pom_row y_true y_pred"
  unfolding same_shape_def
proof (induction y_true y_pred rule: list_all2_induct)
  case Nil
  show ?case
    by (simp add: positive_only_mse_def t_sub_def K_square_def t_ge_def t_mul_def K_cast_def
        K_mean_def)
next
  case (Cons t ts p ps)
  from Cons.IH Cons.hyps(1) show ?case
    by (simp add: positive_only_mse_def t_sub_def K_square_def t_ge_def t_mul_def K_cast_def
        K_mean_def pom_row_def Let_def pom_entries)
qed

lemma plain_mse_rows:
  "same_shape y_true y_pred \<Longrightarrow> plain_mse y_true y_pred = map2 mse_row y_true y_pred"
  unfolding same_shape_def
  by (induction y_true y_pred rule: list_all2_induct)
     (simp_all add: plain_mse_def K_mean_def K_square_def t_sub_def mse_row_def r_square_def
        r_sub_def)

lemma switch_entries:
  "length t = length p \<Longrightarrow>
   r_switch (map is_nan t) (r_zeros_like (r_square (r_sub p t))) (r_square (r_sub p t))
   = map2 (\<lambda>yt yp. if is_nan yt then Fin 0 else sq_diff yt yp) t p"
  unfolding r_switch_def r_zeros_like_def r_square_def r_sub_def
  by (induction t p rule: list_induct2) (simp_all add: sq_diff_def)

lemma sum_squared_error_rows:
  "same_shape y_true y_pred \<Longrightarrow> sum_squared_error y_true y_pred = map2 sse_row y_true y_pred"
  unfolding same_shape_def
proof (induction y_true y_pred rule: list_all2_induct)
  case Nil
  show ?case
    by (simp add: sum_squared_error_def t_is_nan_def t_sub_def K_square_def K_zeros_like_def
        K_switch_def K_sum_def)
next
  case (Cons t ts p ps)
  from Cons.IH Cons.hyps(1) show ?case
    by (simp add: sum_squared_error_def t_is_nan_def t_sub_def K_square_def K_zeros_like_def
        K_switch_def K_sum_def sse_row_def Let_def switch_entries)
qed

lemma n_valid_rows: "n_valid_per_sample y_true = map n_valid_row y_true"
  by (simp add: n_valid_per_sample_def K_sum_def K_cast_def t_not_def t_is_nan_def
      n_valid_row_def)

lemma masked_mse_rows:
  assumes "same_shape y_true y_pred"
  shows "masked_mse y_true y_pred
         = map2 (\<lambda>t p. fdiv (sse_row t p) (n_valid_row t)) y_true y_pred"
proof -
  from assms have len: "length y_true = length y_pred"
    by (simp add: same_shape_def list_all2_lengthD)
  have "masked_mse y_true y_pred
        = map2 fdiv (map2 sse_row y_true y_pred) (map n_valid_row y_true)"
    by (simp add: masked_mse_def v_div_def sum_squared_error_rows[OF assms] n_valid_rows)
  also have "\<dots> = map2 (\<lambda>t p. fdiv (sse_row t p) (n_valid_row t)) y_true y_pred"
    using len by (induction y_true y_pred rule: list_induct2) simp_all
  finally show ?thesis .
qed

subsection \<open>One sample against the specification\<close>

lemma masked_entry:
  "fmul (sq_diff yt yp) (if fge yp (Fin 0) then Fin 1 else Fin 0)
   = (if flt yp (Fin 0) then Fin 0 else sq_diff yt yp)"
  if "zeroable yt yp"
proof (cases "flt yp (Fin 0)")
  case True
  with that have "is_fin (sq_diff yt yp)" by simp
  then show ?thesis using True negative_cases[OF True] by (simp add: fmul_zero)
next
  case False
  have "in_range (sq_diff yt yp)" by (simp add: sq_diff_def in_range_fmul)
  then show ?thesis using False not_negative_cases[OF False]
    by (auto simp: fmul_one sq_diff_NaN)
qed

lemma pom_row_spec:
  assumes "list_all2 zeroable t p"
  shows "pom_row t p = spec_positive_only t p"
proof -
  from assms
  have "map2 (\<lambda>yt yp. fmul (sq_diff yt yp) (if fge yp (Fin 0) then Fin 1 else Fin 0)) t p
     = map2 (\<lambda>yt yp. if flt yp (Fin 0) then Fin 0 else sq_diff yt yp) t p"
  proof (induction rule: list_all2_induct)
    case Nil
    show ?case by simp
  next
    case (Cons x xs y ys)
    then show ?case using masked_entry[of x y] by simp
  qed
  then show ?thesis by (simp only: pom_row_def spec_positive_only_def)
qed

lemma all_negative_zero:
  "length t = length p \<Longrightarrow> list_all (\<lambda>x. flt x (Fin 0)) p \<Longrightarrow>
   map2 (\<lambda>yt yp. if flt yp (Fin 0) then Fin 0 else sq_diff yt yp) t p = map (\<lambda>_. Fin 0) p"
  by (induction t p rule: list_induct2) simp_all

lemma none_negative_plain:
  "length t = length p \<Longrightarrow> list_all (\<lambda>x. \<not> flt x (Fin 0)) p \<Longrightarrow>
   map2 (\<lambda>yt yp. if flt yp (Fin 0) then Fin 0 else sq_diff yt yp) t p
   = r_square (r_sub p t)"
  unfolding r_square_def r_sub_def
  by (induction t p rule: list_induct2) (simp_all add: sq_diff_def)

lemma n_valid_row_count:
  "n_valid_row t = Fin (real (length (filter (\<lambda>x. \<not> is_nan x) t)))"
  unfolding n_valid_row_def r_cast_def
  by (induction t) simp_all

lemma observed_length:
  "length t = length p \<Longrightarrow> length (observed t p) = length (filter (\<lambda>x. \<not> is_nan x) t)"
  by (induction t p rule: list_induct2) (simp_all add: observed_def)

lemma sse_row_observed:
  "length t = length p \<Longrightarrow>
   sse_row t p = fsum (map (\<lambda>(yt, yp). sq_diff yt yp) (observed t p))"
  by (induction t p rule: list_induct2) (simp_all add: sse_row_def observed_def fadd_zero)

lemma masked_row_spec:
  "length t = length p \<Longrightarrow> fdiv (sse_row t p) (n_valid_row t) = spec_masked t p"
  by (simp add: spec_masked_def sse_row_observed n_valid_row_count observed_length)

lemma observed_all:
  "length t = length p \<Longrightarrow> list_all (\<lambda>x. \<not> is_nan x) t \<Longrightarrow> observed t p = zip t p"
  by (induction t p rule: list_induct2) (simp_all add: observed_def)

lemma sq_zip: "map (\<lambda>(yt, yp). sq_diff yt yp) (zip t p) = r_square (r_sub p t)"
  unfolding r_square_def r_sub_def
proof (induction t arbitrary: p)
  case Nil
  show ?case by simp
next
  case (Cons a t)
  then show ?case by (cases p) (simp_all add: sq_diff_def)
qed

lemma spec_masked_plain:
  "length t = length p \<Longrightarrow> list_all (\<lambda>x. \<not> is_nan x) t \<Longrightarrow> spec_masked t p = mse_row t p"
  by (simp add: spec_masked_def observed_all sq_zip mse_row_def)

subsection \<open>Positive-only mean squared error\<close>

text \<open>
  C1, as stated, fails: the mask is applied by multiplication, and a squared difference
  that is NaN or an infinity, times zero, is NaN. With \<open>y_true = [[NaN]]\<close> and
  \<open>y_pred = [[-1]]\<close> the only entry of \<open>y_pred\<close> is negative, the specified value is 0
  and the code gives NaN. So it does with the finite entries \<open>y_true = [[0]]\<close> and
  \<open>y_pred = [[-1e20]]\<close>, whose squared difference overflows. A sample with no feature
  gives NaN too, the mean of nothing.
\<close>

theorem positive_only_mse_nan_counterexample:
  "flt (Fin (- 1)) (Fin 0)
   \<and> positive_only_mse [[NaN]] [[Fin (- 1)]] = [NaN]
   \<and> spec_positive_only [NaN] [Fin (- 1)] = Fin 0
   \<and> positive_only_mse [[NaN]] [[Fin (- 1)]] \<noteq> [Fin 0]
   \<and> flt (Fin (- 100000000000000000000)) (Fin 0)
   \<and> positive_only_mse [[Fin 0]] [[Fin (- 100000000000000000000)]] = [NaN]
   \<and> spec_positive_only [Fin 0] [Fin (- 100000000000000000000)] = Fin 0
   \<and> positive_only_mse [[]] [[]] = [NaN]"
  by (simp add: tensor_eval)

text \<open>
  The hypothesis of the amended claim leaves both inputs out: the squared difference is
  NaN at the first and the positive infinity at the second.
\<close>

lemma not_zeroable_examples:
  "sq_diff NaN (Fin (- 1)) = NaN
   \<and> \<not> zeroable NaN (Fin (- 1))
   \<and> sq_diff (Fin 0) (Fin (- 100000000000000000000)) = PInf
   \<and> \<not> zeroable (Fin 0) (Fin (- 100000000000000000000))"
  by (simp add: sq_diff_def overflow_def FLT_MAX_def)

text \<open>
  C1, amended: for equal-shaped arrays and every sample in which the squared difference
  that the code computes is finite wherever \<open>y_pred < 0\<close> (neither NaN nor an infinity:
  the entries are finite there and the float32 difference and square do not overflow),
  \<open>positive_only_mse\<close> gives one value per sample, equal to the mean over the feature
  axis of the squared difference with the entries at positions where \<open>y_pred < 0\<close>
  replaced by zero, the mean dividing by the full feature count; if the sample has a
  feature and every entry of \<open>y_pred\<close> is negative the loss is 0, and if no entry is
  negative it is the plain mean squared error.
\<close>

theorem positive_only_mse_masked_mean:
  assumes "same_shape y_true y_pred" and "i < length y_true"
    and "list_all2 zeroable (y_true ! i) (y_pred ! i)"
  shows "length (positive_only_mse y_true y_pred) = length y_true
     \<and> positive_only_mse y_true y_pred ! i = spec_positive_only (y_true ! i) (y_pred ! i)
     \<and> (y_pred ! i \<noteq> [] \<and> list_all (\<lambda>x. flt x (Fin 0)) (y_pred ! i)
          \<longrightarrow> positive_only_mse y_true y_pred ! i = Fin 0)
     \<and> (list_all (\<lambda>x. \<not> flt x (Fin 0)) (y_pred ! i)
          \<longrightarrow> positive_only_mse y_true y_pred ! i = plain_mse y_true y_pred ! i)"
proof -
  let ?t = "y_true ! i" and ?p = "y_pred ! i"
  from assms(1,2) have len: "length y_true = length y_pred" and row: "length ?t = length ?p"
    using same_shape_nth by blast+
  have rows: "positive_only_mse y_true y_pred = map2 pom_row y_true y_pred"
    using assms(1) by (rule positive_only_mse_rows)
  have at_i: "positive_only_mse y_true y_pred ! i = spec_positive_only ?t ?p"
    using rows len assms(2,3) by (simp add: pom_row_spec)
  have plain: "plain_mse y_true y_pred ! i = mse_row ?t ?p"
    using plain_mse_rows[OF assms(1)] len assms(2) by simp
  have zero: "spec_positive_only ?t ?p = Fin 0"
    if "?p \<noteq> []" "list_all (\<lambda>x. flt x (Fin 0)) ?p"
    using that all_negative_zero[OF row that(2)]
    by (simp add: spec_positive_only_def fsum_zeros overflow_zero)
  have same: "spec_positive_only ?t ?p = mse_row ?t ?p"
    if "list_all (\<lambda>x. \<not> flt x (Fin 0)) ?p"
    using none_negative_plain[OF row that] by (simp add: spec_positive_only_def mse_row_def)
  show ?thesis using rows len at_i plain zero same by simp
qed

theorem positive_only_mse_masked_mean_witness:
  "same_shape [[Fin 1, Fin 2], [Fin 1, Fin 2], [Fin 1, Fin 2]]
              [[Fin (- 1), Fin 4], [Fin (- 1), Fin (- 3)], [Fin 3, Fin 4]]
   \<and> list_all2 zeroable [Fin 1, Fin 2] [Fin (- 1), Fin 4]
   \<and> list_all2 zeroable [Fin 1, Fin 2] [Fin (- 1), Fin (- 3)]
   \<and> list_all2 zeroable [Fin 1, Fin 2] [Fin 3, Fin 4]
   \<and> positive_only_mse [[Fin 1, Fin 2], [Fin 1, Fin 2], [Fin 1, Fin 2]]
        [[Fin (- 1), Fin 4], [Fin (- 1), Fin (- 3)], [Fin 3, Fin 4]] = [Fin 2, Fin 0, Fin 4]
   \<and> spec_positive_only [Fin 1, Fin 2] [Fin (- 1), Fin 4] = Fin 2
   \<and> plain_mse [[Fin 1, Fin 2], [Fin 1, Fin 2], [Fin 1, Fin 2]]
        [[Fin (- 1), Fin 4], [Fin (- 1), Fin (- 3)], [Fin 3, Fin 4]] ! 2 = Fin 4"
  using positive_only_mse_masked_mean
      [of "[[Fin 1, Fin 2], [Fin 1, Fin 2], [Fin 1, Fin 2]]"
          "[[Fin (- 1), Fin 4], [Fin (- 1), Fin (- 3)], [Fin 3, Fin 4]]" 0]
    positive_only_mse_masked_mean
      [of "[[Fin 1, Fin 2], [Fin 1, Fin 2], [Fin 1, Fin 2]]"
          "[[Fin (- 1), Fin 4], [Fin (- 1), Fin (- 3)], [Fin 3, Fin 4]]" 1]
    positive_only_mse_masked_mean
      [of "[[Fin 1, Fin 2], [Fin 1, Fin 2], [Fin 1, Fin 2]]"
          "[[Fin (- 1), Fin 4], [Fin (- 1), Fin (- 3)], [Fin 3, Fin 4]]" 2]
  by (simp add: tensor_eval)

subsection \<open>Masked mean squared error\<close>

text \<open>
  C2: for equal-shaped arrays in which every sample has an entry of \<open>y_true\<close> that is not
  NaN, \<open>masked_mse\<close> is, sample by sample, the sum of the squared difference over the
  positions where \<open>y_true\<close> is not NaN, divided by the count of those positions; when no
  entry of \<open>y_true\<close> is NaN it is the plain mean squared error over the feature axis.
\<close>

theorem masked_mse_valid_count:
  assumes "same_shape y_true y_pred"
    and "list_all (list_ex (\<lambda>x. \<not> is_nan x)) y_true"
  shows "masked_mse y_true y_pred = map2 spec_masked y_true y_pred
     \<and> (list_all (list_all (\<lambda>x. \<not> is_nan x)) y_true
          \<longrightarrow> masked_mse y_true y_pred = plain_mse y_true y_pred)"
proof -
  have shape: "list_all2 (\<lambda>r s. length r = length s) y_true y_pred"
    using assms(1) by (simp add: same_shape_def)
  have spec: "masked_mse y_true y_pred = map2 spec_masked y_true y_pred"
    unfolding masked_mse_rows[OF assms(1)]
    using shape by (rule map2_cong_rows) (rule masked_row_spec)
  have plain: "map2 spec_masked y_true y_pred = plain_mse y_true y_pred"
    if "list_all (list_all (\<lambda>x. \<not> is_nan x)) y_true"
  proof -
    have "list_all2 (\<lambda>r s. length r = length s \<and> list_all (\<lambda>x. \<not> is_nan x) r) y_true y_pred"
      using shape that by (induction rule: list_all2_induct) simp_all
    then have "map2 spec_masked y_true y_pred = map2 mse_row y_true y_pred"
      by (rule map2_cong_rows) (simp add: spec_masked_plain)
    then show ?thesis by (simp add: plain_mse_rows[OF assms(1)])
  qed
  show ?thesis using spec plain by simp
qed

theorem masked_mse_valid_count_witness:
  "same_shape [[Fin 1, NaN, Fin 2]] [[Fin 3, Fin 5, Fin 6]]
   \<and> list_all (list_ex (\<lambda>x. \<not> is_nan x)) [[Fin 1, NaN, Fin 2]]
   \<and> masked_mse [[Fin 1, NaN, Fin 2]] [[Fin 3, Fin 5, Fin 6]] = [Fin 10]
   \<and> spec_masked [Fin 1, NaN, Fin 2] [Fin 3, Fin 5, Fin 6] = Fin 10
   \<and> list_all (list_all (\<lambda>x. \<not> is_nan x)) [[Fin 1, Fin 2]]
   \<and> masked_mse [[Fin 1, Fin 2]] [[Fin 3, Fin 6]] = plain_mse [[Fin 1, Fin 2]] [[Fin 3, Fin 6]]
   \<and> plain_mse [[Fin 1, Fin 2]] [[Fin 3, Fin 6]] = [Fin 10]"
  using masked_mse_valid_count [of "[[Fin 1, NaN, Fin 2]]" "[[Fin 3, Fin 5, Fin 6]]"]
    masked_mse_valid_count [of "[[Fin 1, Fin 2]]" "[[Fin 3, Fin 6]]"]
  by (simp add: tensor_eval)

text \<open>
  C7: for a sample whose entries of \<open>y_true\<close> are all NaN, the denominator of
  \<open>masked_mse\<close>, the count of observed positions, is zero, and the result, zero divided by
  zero with no guard, is NaN; for a sample with an observed position the denominator is
  the count of the observed positions and is not zero.
\<close>

theorem masked_mse_zero_count:
  assumes "same_shape y_true y_pred" and "i < length y_true"
  shows "(list_all is_nan (y_true ! i)
            \<longrightarrow> n_valid_per_sample y_true ! i = Fin 0 \<and> masked_mse y_true y_pred ! i = NaN)
     \<and> (list_ex (\<lambda>x. \<not> is_nan x) (y_true ! i)
            \<longrightarrow> n_valid_per_sample y_true ! i
                  = Fin (real (length (filter (\<lambda>x. \<not> is_nan x) (y_true ! i))))
              \<and> n_valid_per_sample y_true ! i \<noteq> Fin 0)"
proof -
  let ?t = "y_true ! i" and ?p = "y_pred ! i"
  from assms have len: "length y_true = length y_pred" and row: "length ?t = length ?p"
    using same_shape_nth by blast+
  have nv: "n_valid_per_sample y_true ! i = Fin (real (length (filter (\<lambda>x. \<not> is_nan x) ?t)))"
    using assms(2) by (simp add: n_valid_rows n_valid_row_count)
  have at_i: "masked_mse y_true y_pred ! i = spec_masked ?t ?p"
    using assms(2) len row by (simp add: masked_mse_rows[OF assms(1)] masked_row_spec)
  have none: "filter (\<lambda>x. \<not> is_nan x) ?t = []" if "list_all is_nan ?t"
    using that by (simp add: list_all_iff)
  have obs: "observed ?t ?p = []" if "list_all is_nan ?t"
    using observed_length[OF row] none[OF that] by simp
  have some: "filter (\<lambda>x. \<not> is_nan x) ?t \<noteq> []" if "list_ex (\<lambda>x. \<not> is_nan x) ?t"
    using that by (auto simp: list_ex_iff filter_empty_conv)
  show ?thesis using nv at_i none obs some by (simp add: spec_masked_def)
qed

theorem masked_mse_zero_count_witness:
  "same_shape [[NaN, NaN], [NaN, Fin 2]] [[Fin 3, Fin 5], [Fin 3, Fin 5]]
   \<and> list_all is_nan [NaN, NaN]
   \<and> n_valid_per_sample [[NaN, NaN], [NaN, Fin 2]] = [Fin 0, Fin 1]
   \<and> masked_mse [[NaN, NaN], [NaN, Fin 2]] [[Fin 3, Fin 5], [Fin 3, Fin 5]] = [NaN, Fin 9]
   \<and> list_ex (\<lambda>x. \<not> is_nan x) [NaN, Fin 2]"
  using masked_mse_zero_count [of "[[NaN, NaN], [NaN, Fin 2]]" "[[Fin 3, Fin 5], [Fin 3, Fin 5]]" 0]
    masked_mse_zero_count [of "[[NaN, NaN], [NaN, Fin 2]]" "[[Fin 3, Fin 5], [Fin 3, Fin 5]]" 1]
  by (simp add: tensor_eval)

section \<open>Properties of the numeric output\<close>

text \<open>
  C6: reading \<open>loss_fn\<close> gives the positive-only mean squared error when \<open>mask_negative\<close>
  is set and the loss is \<open>mse\<close>; with \<open>mask_negative\<close> set and any other loss it raises
  a ValueError whose message, \<open>No masked loss available for '<name>'\<close>, names the loss;
  with \<open>mask_negative\<close> unset it is what the loss registry of the framework gives for
  the name.
\<close>

theorem loss_fn_cases:
  "(mask_negative self \<and> loss self = ''mse'' \<longrightarrow> loss_fn deserialize self = Inr positive_only_mse)
   \<and> (mask_negative self \<and> loss self \<noteq> ''mse'' \<longrightarrow>
        loss_fn deserialize self
        = Inl (ValueError (''No masked loss available for '' @ [CHR 0x27] @ loss self @ [CHR 0x27])))
   \<and> (\<not> mask_negative self \<longrightarrow> loss_fn deserialize self = deserialize (loss self))"
  by (simp add: loss_fn_def)

theorem loss_fn_cases_witness:
  "loss_fn (\<lambda>n. if n = ''mse'' then Inr plain_mse else Inl (ValueError n))
     \<lparr>activation = ''linear'', loss = ''mse'', inverse_transform = None :: unit option,
      mask_negative = True\<rparr> = Inr positive_only_mse
   \<and> loss_fn (\<lambda>n. if n = ''mse'' then Inr plain_mse else Inl (ValueError n))
     \<lparr>activation = ''linear'', loss = ''binary_crossentropy'',
      inverse_transform = None :: unit option, mask_negative = True\<rparr>
     = Inl (ValueError
         (''No masked loss available for '' @ [CHR 0x27] @ ''binary_crossentropy'' @ [CHR 0x27]))
   \<and> loss_fn (\<lambda>n. if n = ''mse'' then Inr plain_mse else Inl (ValueError n))
     \<lparr>activation = ''linear'', loss = ''mse'', inverse_transform = None :: unit option,
      mask_negative = False\<rparr> = Inr plain_mse"
  using loss_fn_cases
      [of "\<lparr>activation = ''linear'', loss = ''mse'', inverse_transform = None :: unit option,
            mask_negative = True\<rparr>"
          "\<lambda>n. if n = ''mse'' then Inr plain_mse else Inl (ValueError n)"]
    loss_fn_cases
      [of "\<lparr>activation = ''linear'', loss = ''binary_crossentropy'',
            inverse_transform = None :: unit option, mask_negative = True\<rparr>"
          "\<lambda>n. if n = ''mse'' then Inr plain_mse else Inl (ValueError n)"]
    loss_fn_cases
      [of "\<lparr>activation = ''linear'', loss = ''mse'', inverse_transform = None :: unit option,
            mask_negative = False\<rparr>"
          "\<lambda>n. if n = ''mse'' then Inr plain_mse else Inl (ValueError n)"]
  by simp

section \<open>Properties of the sequence input\<close>

lemmas record_eval = set_attributes_def sequence_input_args.defs sequence_input.defs

lemmas build_eval = SequenceInput_init_def default_args_def record_eval Let_def
  build_def build_input_def build_embedding_def build_conv_def build_rnn_def
  build_global_pooling_def build_dense_def build_highway_def
  conv_layer_def dict_pop_def maxpooling_of_def

lemmas from_dict_eval = from_dict_def to_dict_def json_roundtrip_def json_dict_def

lemmas int_eval = py_int_of_str_def strip_def is_space_def is_digit_def digits_val_def
  digit_val_def

subsection \<open>The constructor\<close>

text \<open>
  C9: with an encoding other than \<open>embedding\<close>, \<open>onehot\<close>, \<open>blosum\<close> and \<open>pmbec\<close> the
  constructor fails with the ValueError \<open>Invalid encoding: <encoding>\<close>, whatever the
  other arguments and the encoder are: nothing is derived before the check.
\<close>

theorem invalid_encoding_fails:
  assumes "encoding a \<notin> {''embedding'', ''onehot'', ''blosum'', ''pmbec''}"
  shows "SequenceInput_init n_tokens a = Inl (ValueError (''Invalid encoding: '' @ encoding a))"
  using assms by (simp add: SequenceInput_init_def)

theorem invalid_encoding_fails_witness:
  "''xyz'' \<notin> {''embedding'', ''onehot'', ''blosum'', ''pmbec''}
   \<and> SequenceInput_init (\<lambda>_. 21) ((default_args 9)\<lparr>encoding := ''xyz''\<rparr>)
       = Inl (ValueError ''Invalid encoding: xyz'')"
  using invalid_encoding_fails [of "(default_args 9)\<lparr>encoding := ''xyz''\<rparr>" "\<lambda>_. 21"]
  by (simp add: default_args_def)

text \<open>
  C3 does not hold of the code: with the encoding \<open>embedding\<close> the constructor always
  fails, also when both augmentation flags are unset. The assertion compares
  \<open>extra_input_dims\<close>, an integer, with None.
\<close>

theorem embedding_construction_fails:
  assumes "encoding a = ''embedding''"
  shows "SequenceInput_init n_tokens a = Inl AssertionError"
  using assms by (simp add: SequenceInput_init_def Let_def)

theorem embedding_construction_fails_witness:
  "SequenceInput_init (\<lambda>_. 21) ((default_args 9)\<lparr>encoding := ''embedding''\<rparr>)
     = Inl AssertionError
   \<and> add_normalized_position ((default_args 9)\<lparr>encoding := ''embedding''\<rparr>) = False
   \<and> add_normalized_centrality ((default_args 9)\<lparr>encoding := ''embedding''\<rparr>) = False"
  using embedding_construction_fails
      [of "(default_args 9)\<lparr>encoding := ''embedding''\<rparr>" "\<lambda>_. 21"]
  by (simp add: default_args_def)

text \<open>
  C10: when the construction succeeds, the attribute \<open>mask_zero\<close> is \<open>variable_length\<close>
  if the argument was None, and the argument itself if a boolean was given;
  \<open>variable_length\<close> is stored as given.
\<close>

theorem mask_zero_default:
  assumes "SequenceInput_init n_tokens a = Inr self"
  shows "(case mask_zero a of
            None \<Rightarrow> mask_zero self = Some (variable_length self)
          | Some b \<Rightarrow> mask_zero self = Some b)
     \<and> variable_length self = variable_length a"
  using assms
  by (auto simp: SequenceInput_init_def Let_def record_eval split: if_splits option.splits)

theorem mask_zero_default_witness:
  "(\<exists>self. SequenceInput_init (\<lambda>_. 21) ((default_args 9)\<lparr>variable_length := True\<rparr>) = Inr self
       \<and> mask_zero self = Some True)
   \<and> (\<exists>self. SequenceInput_init (\<lambda>_. 21)
          ((default_args 9)\<lparr>variable_length := True, mask_zero := Some False\<rparr>) = Inr self
       \<and> mask_zero self = Some False \<and> variable_length self = True)"
proof -
  let ?a = "(default_args 9)\<lparr>variable_length := True\<rparr>"
  let ?b = "(default_args 9)\<lparr>variable_length := True, mask_zero := Some False\<rparr>"
  obtain s where s: "SequenceInput_init (\<lambda>_. 21) ?a = Inr s"
    by (simp add: SequenceInput_init_def default_args_def Let_def)
  obtain t where t: "SequenceInput_init (\<lambda>_. 21) ?b = Inr t"
    by (simp add: SequenceInput_init_def default_args_def Let_def)
  have a: "mask_zero ?a = None" and b: "mask_zero ?b = Some False"
    and v: "variable_length ?a = True" "variable_length ?b = True"
    by (simp_all add: default_args_def)
  from mask_zero_default[OF s] a v have "mask_zero s = Some True" by simp
  moreover from mask_zero_default[OF t] b v
  have "mask_zero t = Some False \<and> variable_length t = True" by simp
  ultimately show ?thesis using s t by blast
qed

subsection \<open>The convolution stack\<close>

text \<open>
  C5 does not hold of the code: \<open>n_conv_layers\<close> counts the records that are skipped as
  well, so when a record is skipped the last layer applied is pooled too. With
  \<open>conv_filter_sizes = [{3: 16}, {"pool_size": 3}]\<close> and the default pooling (size 3,
  stride 2) the second record is empty once its override is taken out; the stack is the
  one convolution followed by a max-pooling.
\<close>

theorem pooling_after_last_applied_layer:
  "case SequenceInput_init n_tokens
          ((default_args 9)\<lparr>conv_filter_sizes :=
             LayerList [LayerDict [(KInt 3, PInt 16)],
                        LayerDict [(KStr ''pool_size'', PInt 3)]]\<rparr>) of
     Inl e \<Rightarrow> False
   | Inr self \<Rightarrow>
       snd (build_conv self v)
       = Inr (LocalMaxPooling
                (AlignedConvolutions v [KInt 3] [(KInt 3, PInt 16)] (PFloat 0) (PBool False)
                   (PStr ''linear'') None)
                (PInt 3) (PInt 2))"
  by (simp add: build_eval)

text \<open>
  C4 does not hold of the code: \<open>build()\<close> takes the override keys out of the
  dictionaries of the descriptor. With
  \<open>conv_filter_sizes = [{3: 16, "pool_size": 1, "pool_stride": 1}, {5: 8}]\<close> the
  descriptor holds \<open>[{3: 16}, {5: 8}]\<close> after the first \<open>build()\<close>; the first run of
  the convolution stack has no pooling, a run after it pools with the defaults.
\<close>

theorem build_strips_overrides:
  "case SequenceInput_init n_tokens
          ((default_args 9)\<lparr>conv_filter_sizes :=
             LayerList [LayerDict [(KInt 3, PInt 16), (KStr ''pool_size'', PInt 1),
                                   (KStr ''pool_stride'', PInt 1)],
                        LayerDict [(KInt 5, PInt 8)]]\<rparr>) of
     Inl e \<Rightarrow> False
   | Inr self \<Rightarrow>
       conv_filter_sizes (fst (build ndim self))
         = LayerList [LayerDict [(KInt 3, PInt 16)], LayerDict [(KInt 5, PInt 8)]]
       \<and> conv_filter_sizes (fst (build ndim self)) \<noteq> conv_filter_sizes self
       \<and> snd (build_conv self v)
         = Inr (AlignedConvolutions
                  (AlignedConvolutions v [KInt 3] [(KInt 3, PInt 16)] (PFloat 0) (PBool False)
                     (PStr ''linear'') None)
                  [KInt 5] [(KInt 5, PInt 8)] (PFloat 0) (PBool False) (PStr ''linear'') None)
       \<and> snd (build_conv (fst (build ndim self)) v)
         = Inr (AlignedConvolutions
                  (LocalMaxPooling
                     (AlignedConvolutions v [KInt 3] [(KInt 3, PInt 16)] (PFloat 0) (PBool False)
                        (PStr ''linear'') None)
                     (PInt 3) (PInt 2))
                  [KInt 5] [(KInt 5, PInt 8)] (PFloat 0) (PBool False) (PStr ''linear'') None)"
  by (simp add: build_eval)

subsection \<open>The configuration mapping\<close>

lemma str_of_3: "py_str_int 3 = ''3''"
  by (simp add: py_str_int_def digits.simps)

lemma int_of_3: "py_int_of_str ''3'' = Inr 3"
  by (simp add: int_eval)

lemma int_of_pool_size: "py_int_of_str ''pool_size'' = Inl invalid_literal"
  by (simp add: int_eval)

text \<open>
  C8 does not hold of the code: \<open>from_dict\<close> converts every key of a layer dictionary
  with \<open>int\<close>, and the name of an override is no integer. For the descriptor made with
  \<open>conv_filter_sizes = [{3: 16, "pool_size": 2}]\<close>, \<open>from_dict\<close> of its configuration
  mapping raises a ValueError, on the mapping itself and on its round trip through JSON.
\<close>

theorem from_dict_rejects_override_keys:
  "case SequenceInput_init n_tokens
          ((default_args 9)\<lparr>conv_filter_sizes :=
             LayerList [LayerDict [(KInt 3, PInt 16), (KStr ''pool_size'', PInt 2)]]\<rparr>) of
     Inl e \<Rightarrow> False
   | Inr self \<Rightarrow>
       from_dict n_tokens (to_dict self) = Inl invalid_literal
       \<and> from_dict n_tokens (json_roundtrip (to_dict self)) = Inl invalid_literal"
  by (simp add: build_eval from_dict_eval str_of_3 int_of_3 int_of_pool_size)

end
